theory Spec2Isabelle
  imports Main "HOL-Library.AList"
begin

section \<open>Data model of \<^verbatim>\<open>mcp_sharepoint/auth.py\<close>\<close>

text \<open>
  The exceptions a call of the manager can end with. \<^verbatim>\<open>AuthenticationFlowNotFound\<close> is
  declared as a subclass of \<^verbatim>\<open>AuthenticationError\<close>; each constructor is the exact class
  of the raised object, which is what a handler for the subclass, placed first, tells
  apart. \<open>OSError\<close> carries the text of an operating-system error. \<open>ProviderError\<close>
  stands for whatever the identity library itself raises; the manager catches none of it.
\<close>

datatype error =
    AuthenticationError string
  | AuthenticationFlowNotFound string
  | ValueError string
  | UnicodeDecodeError
  | OSError string
  | ProviderError string

text \<open>
  An account of the identity library is a dictionary. The record carries the keys the
  manager reads; \<open>None\<close> is an absent key, and the library stores strings under them
  (\<open>tenant_profiles\<close> is opaque and kept as text). The dictionary without keys is
  \<open>empty_account\<close>, the only account Python's \<^verbatim>\<open>not account\<close> holds of.
\<close>

record account =
  acc_username :: "string option"
  acc_name :: "string option"
  acc_home_account_id :: "string option"
  acc_environment :: "string option"
  acc_tenant_profiles :: "string option"

definition empty_account :: account where
  "empty_account = \<lparr>acc_username = None, acc_name = None, acc_home_account_id = None,
     acc_environment = None, acc_tenant_profiles = None\<rparr>"

text \<open>The dataclass \<^verbatim>\<open>AccountSummary\<close>.\<close>

record AccountSummary =
  username :: string
  name :: "string option"
  home_account_id :: string
  environment :: "string option"
  tenant_profiles :: "string option"
  is_active :: bool

text \<open>
  The flow dictionary of \<^verbatim>\<open>initiate_device_flow\<close>; \<open>flow_state\<close> is the opaque rest
  (device code and the like) that the exchange needs.
\<close>

record device_flow =
  flow_user_code :: "string option"
  flow_verification_uri :: "string option"
  flow_verification_uri_complete :: "string option"
  flow_expires_in :: "int option"
  flow_interval :: "int option"
  flow_message :: "string option"
  flow_state :: "string option"

definition empty_flow :: device_flow where
  "empty_flow = \<lparr>flow_user_code = None, flow_verification_uri = None,
     flow_verification_uri_complete = None, flow_expires_in = None, flow_interval = None,
     flow_message = None, flow_state = None\<rparr>"

record id_claims =
  preferred_username :: "string option"
  email :: "string option"

definition empty_claims :: id_claims where
  "empty_claims = \<lparr>preferred_username = None, email = None\<rparr>"

text \<open>The result dictionary of a token request, by the keys the manager reads.\<close>

record token_result =
  access_token :: "string option"
  error_description :: "string option"
  account :: "account option"
  id_token_claims :: "id_claims option"
  expires_in :: "int option"
  scope :: "string option"
  token_type :: "string option"

definition empty_result :: token_result where
  "empty_result = \<lparr>access_token = None, error_description = None, account = None,
     id_token_claims = None, expires_in = None, scope = None, token_type = None\<rparr>"

text \<open>
  \<^verbatim>\<open>msal.SerializableTokenCache\<close>, as far as the manager sees it: the accounts that
  \<^verbatim>\<open>get_accounts()\<close> lists, in the library's order, the text \<^verbatim>\<open>serialize()\<close> yields, and
  the flag \<^verbatim>\<open>has_state_changed\<close>.
\<close>

record token_cache =
  cached_accounts :: "account list"
  serialized :: string
  has_state_changed :: bool

definition empty_cache :: token_cache where
  "empty_cache = \<lparr>cached_accounts = [], serialized = [], has_state_changed = False\<rparr>"

text \<open>What a token request of the library ends with: an exception, or a result (Python's
  \<^verbatim>\<open>None\<close> is \<open>None\<close>) together with the cache as the request left it.\<close>

type_synonym provider_outcome = "error + (token_result option \<times> token_cache)"

text \<open>
  The file at \<^verbatim>\<open>cache_path\<close>, by what \<^verbatim>\<open>exists()\<close> and \<^verbatim>\<open>read_text(encoding="utf-8")\<close>
  answer, and what a write to it ends with. \<^verbatim>\<open>exists()\<close> answers \<^verbatim>\<open>False\<close> for a file that
  is not there (\<open>Missing\<close>) and passes any other operating-system error on, such as a
  directory that may not be searched or a name that is too long (\<open>ExistsOSError\<close>). For a
  file that is there, \<^verbatim>\<open>read_text\<close> returns its text (\<open>Text\<close>), raises an operating-system
  error (\<open>ReadOSError\<close>), or raises \<^verbatim>\<open>UnicodeDecodeError\<close> on bytes that are not UTF-8
  (\<open>NotUtf8\<close>).
\<close>

datatype cache_file =
    Missing
  | ExistsOSError string
  | Text string
  | ReadOSError string
  | NotUtf8

datatype write_outcome = WriteOk | MkdirOSError string | WriteOSError string

datatype log_entry = Warning string | Info string

text \<open>The fields of \<^verbatim>\<open>GraphAuthManager\<close>, with the cache file it reads and writes.\<close>

record manager =
  logger :: "log_entry list"
  scopes :: "string list"
  cache_path :: string
  pending_device_flows :: "(string \<times> device_flow) list"
  active_account_id :: "string option"
  token_cache :: token_cache
  disk :: cache_file
  disk_write :: write_outcome

section \<open>Python truthiness and strings\<close>

definition truthy :: "string option \<Rightarrow> bool" where
  "truthy v = (case v of None \<Rightarrow> False | Some s \<Rightarrow> s \<noteq> [])"

text \<open>\<^verbatim>\<open>a or b\<close> on optional strings.\<close>

definition py_or :: "string option \<Rightarrow> string option \<Rightarrow> string option" where
  "py_or a b = (if truthy a then a else b)"

text \<open>\<^verbatim>\<open>str.lower()\<close> on ASCII text: the letters A to Z move to a to z, every other
  character stays.\<close>

definition lower_char :: "char \<Rightarrow> char" where
  "lower_char c = (let n = (of_char c :: nat) in
     if 65 \<le> n \<and> n \<le> 90 then char_of (n + 32) else c)"

definition lower :: "string \<Rightarrow> string" where
  "lower s = map lower_char s"

section \<open>Cache persistence\<close>

text \<open>
  \<^verbatim>\<open>__init__\<close>. \<open>deserialize\<close> is \<^verbatim>\<open>SerializableTokenCache.deserialize\<close> of the library:
  the cache a text stands for, or the exception it raises on a text it cannot parse. The
  test \<^verbatim>\<open>self._cache_path.exists()\<close> stands before the \<^verbatim>\<open>try\<close>, so what it raises leaves
  the constructor; inside the \<^verbatim>\<open>try\<close> only \<^verbatim>\<open>OSError\<close> is caught. The library's application
  object is taken to be built without an exception.
\<close>

definition init :: "(string \<Rightarrow> error + token_cache) \<Rightarrow> string \<Rightarrow> string \<Rightarrow> string list
    \<Rightarrow> string \<Rightarrow> cache_file \<Rightarrow> write_outcome \<Rightarrow> error + manager" where
  "init deserialize client_id tenant_id scopes0 path file wr =
     (if client_id = [] then
        Inl (ValueError ''client_id is required to authenticate against Microsoft Graph'')
      else
        let m0 = \<lparr>logger = [], scopes = scopes0, cache_path = path,
                  pending_device_flows = [], active_account_id = None,
                  token_cache = empty_cache, disk = file, disk_write = wr\<rparr>
        in case file of
             Missing \<Rightarrow> Inr m0
           | ExistsOSError exc \<Rightarrow> Inl (OSError exc)
           | Text cache_data \<Rightarrow>
               (if cache_data \<noteq> [] then
                  (case deserialize cache_data of
                     Inl e \<Rightarrow> Inl e
                   | Inr c \<Rightarrow> Inr (m0\<lparr>token_cache := c\<rparr>))
                else Inr m0)
           | ReadOSError exc \<Rightarrow>
               Inr (m0\<lparr>logger := [Warning (''Unable to read token cache: '' @ exc)]\<rparr>)
           | NotUtf8 \<Rightarrow> Inl UnicodeDecodeError)"

text \<open>
  \<^verbatim>\<open>_save_cache\<close>. \<^verbatim>\<open>serialize()\<close> clears \<^verbatim>\<open>has_state_changed\<close>; it runs after the
  directory was made, so a failing \<^verbatim>\<open>mkdir\<close> leaves the flag set.
\<close>

definition save_cache :: "manager \<Rightarrow> manager" where
  "save_cache s =
     (if has_state_changed (token_cache s) then
        (case disk_write s of
           WriteOk \<Rightarrow>
             s\<lparr>token_cache := (token_cache s)\<lparr>has_state_changed := False\<rparr>,
               disk := Text (serialized (token_cache s))\<rparr>
         | MkdirOSError exc \<Rightarrow>
             s\<lparr>logger := logger s @ [Warning (''Unable to persist token cache: '' @ exc)]\<rparr>
         | WriteOSError exc \<Rightarrow>
             s\<lparr>token_cache := (token_cache s)\<lparr>has_state_changed := False\<rparr>,
               logger := logger s @ [Warning (''Unable to persist token cache: '' @ exc)]\<rparr>)
      else s)"

section \<open>Account helpers\<close>

definition get_accounts :: "manager \<Rightarrow> account list" where
  "get_accounts s = cached_accounts (token_cache s)"

text \<open>\<^verbatim>\<open>dict.get(key, "")\<close> on an optional string.\<close>

definition get_or_empty :: "string option \<Rightarrow> string" where
  "get_or_empty v = (case v of None \<Rightarrow> [] | Some x \<Rightarrow> x)"

text \<open>\<^verbatim>\<open>_serialize_account\<close>, on the active pointer it reads.\<close>

definition serialize_account :: "string option \<Rightarrow> account option \<Rightarrow> AccountSummary option" where
  "serialize_account active a0 =
     (case a0 of
        None \<Rightarrow> None
      | Some a \<Rightarrow>
          if a = empty_account then None
          else Some \<lparr>username = get_or_empty (acc_username a),
                      name = acc_name a,
                      home_account_id = get_or_empty (acc_home_account_id a),
                      environment = acc_environment a,
                      tenant_profiles = acc_tenant_profiles a,
                      is_active = (acc_home_account_id a = active)\<rparr>)"

text \<open>The \<^verbatim>\<open>else\<close> loop of \<^verbatim>\<open>list_accounts\<close>: every summary is flagged again, by its own
  identifier.\<close>

definition reflag :: "string option \<Rightarrow> AccountSummary option \<Rightarrow> AccountSummary option" where
  "reflag active sm =
     map_option (\<lambda>x. x\<lparr>is_active := (Some (home_account_id x) = active)\<rparr>) sm"

definition set_active :: "AccountSummary option \<Rightarrow> AccountSummary option" where
  "set_active sm = map_option (\<lambda>x. x\<lparr>is_active := True\<rparr>) sm"

text \<open>\<^verbatim>\<open>[summary for summary in summaries if summary]\<close>.\<close>

definition present :: "'a option list \<Rightarrow> 'a list" where
  "present xs = List.map_filter (\<lambda>x. x) xs"

definition list_accounts :: "manager \<Rightarrow> AccountSummary list \<times> manager" where
  "list_accounts s =
     (let accounts = get_accounts s;
          summaries = map (\<lambda>a. serialize_account (active_account_id s) (Some a)) accounts
      in if \<not> truthy (active_account_id s) \<and> length accounts = 1 then
           (present (case summaries of [] \<Rightarrow> [] | x # xs \<Rightarrow> set_active x # xs),
            s\<lparr>active_account_id := acc_home_account_id (hd accounts)\<rparr>)
         else
           (present (map (reflag (active_account_id s)) summaries), s))"

text \<open>The loop of \<^verbatim>\<open>get_active_account\<close>: the first account with the wanted identifier.\<close>

fun find_account :: "string option \<Rightarrow> account list \<Rightarrow> account option" where
  "find_account i [] = None"
| "find_account i (a # as) = (if acc_home_account_id a = i then Some a else find_account i as)"

definition get_active_account :: "manager \<Rightarrow> account option \<times> manager" where
  "get_active_account s =
     (if \<not> truthy (active_account_id s) then (None, s)
      else case find_account (active_account_id s) (get_accounts s) of
             Some a \<Rightarrow> (Some a, s)
           | None \<Rightarrow> (None, s\<lparr>active_account_id := None\<rparr>))"

text \<open>
  The loop of \<^verbatim>\<open>set_active_account\<close>: for each account in turn, first the test on the
  identifier, then the test on the lower-cased user name. The result is the new pointer
  and the account.
\<close>

definition matches_id :: "string option \<Rightarrow> account \<Rightarrow> bool" where
  "matches_id hid a = (truthy hid \<and> acc_home_account_id a = hid)"

definition matches_username :: "string option \<Rightarrow> account \<Rightarrow> bool" where
  "matches_username un a =
     (case un of None \<Rightarrow> False
      | Some u \<Rightarrow> u \<noteq> [] \<and> lower (get_or_empty (acc_username a)) = lower u)"

fun select_account :: "string option \<Rightarrow> string option \<Rightarrow> account list
    \<Rightarrow> (string option \<times> account) option" where
  "select_account hid un [] = None"
| "select_account hid un (a # as) =
     (if matches_id hid a then Some (hid, a)
      else if matches_username un a then Some (acc_home_account_id a, a)
      else select_account hid un as)"

definition set_active_account :: "manager \<Rightarrow> string option \<Rightarrow> string option
    \<Rightarrow> (error + AccountSummary option) \<times> manager" where
  "set_active_account s hid un =
     (if \<not> truthy hid \<and> \<not> truthy un then
        (Inl (AuthenticationError ''Either home_account_id or username must be provided''), s)
      else case select_account hid un (get_accounts s) of
             Some (p, a) \<Rightarrow>
               (Inr (set_active (serialize_account p (Some a))), s\<lparr>active_account_id := p\<rparr>)
           | None \<Rightarrow>
               (Inl (AuthenticationError ''No cached account matches the provided identifier''),
                s))"

definition get_active_account_summary :: "manager \<Rightarrow> AccountSummary option \<times> manager" where
  "get_active_account_summary s =
     (case get_active_account s of
        (a, s') \<Rightarrow> (serialize_account (active_account_id s') a, s'))"

section \<open>Token acquisition\<close>

definition no_active_account_message :: string where
  "no_active_account_message =
     ''No active Microsoft account selected. Use the authentication tools to sign in ''
     @ ''and select an account.''"

text \<open>The first half of \<^verbatim>\<open>acquire_token_silent\<close>: the account the request is made for.\<close>

definition resolve_account :: "manager \<Rightarrow> (error + account) \<times> manager" where
  "resolve_account s =
     (case get_active_account s of
        (a0, s1) \<Rightarrow>
          (if a0 = None \<or> a0 = Some empty_account then
             (case get_accounts s1 of
                [a] \<Rightarrow> (Inr a, s1\<lparr>active_account_id := acc_home_account_id a\<rparr>)
              | _ \<Rightarrow> (Inl (AuthenticationError no_active_account_message), s1))
           else (case a0 of Some a \<Rightarrow> (Inr a, s1)
                 | None \<Rightarrow> (Inl (AuthenticationError no_active_account_message), s1))))"

text \<open>\<^verbatim>\<open>not result or "access_token" not in result\<close>.\<close>

definition no_token :: "token_result option \<Rightarrow> bool" where
  "no_token r = (case r of None \<Rightarrow> True | Some x \<Rightarrow> access_token x = None)"

definition details :: "string option \<Rightarrow> string" where
  "details d = (case d of None \<Rightarrow> [] | Some t \<Rightarrow> if t = [] then [] else '' Details: '' @ t)"

text \<open>
  \<^verbatim>\<open>acquire_token_silent\<close>. \<open>silent\<close> is the library's \<^verbatim>\<open>acquire_token_silent\<close> for this
  call and \<open>dumps\<close> is \<^verbatim>\<open>json.dumps\<close> on a result.
\<close>

definition acquire_token_silent :: "(token_result \<Rightarrow> string)
    \<Rightarrow> (string list \<Rightarrow> account \<Rightarrow> token_cache \<Rightarrow> provider_outcome)
    \<Rightarrow> manager \<Rightarrow> (error + string) \<times> manager" where
  "acquire_token_silent dumps silent s =
     (case resolve_account s of
        (Inl e, s1) \<Rightarrow> (Inl e, s1)
      | (Inr a, s1) \<Rightarrow>
          (case silent (scopes s1) a (token_cache s1) of
             Inl e \<Rightarrow> (Inl e, s1)
           | Inr (result, cache') \<Rightarrow>
               let s2 = s1\<lparr>token_cache := cache'\<rparr> in
               if no_token result then
                 (Inl (AuthenticationError
                    (''Unable to acquire a token silently. Complete the device login flow first.''
                     @ details (case result of None \<Rightarrow> None
                                | Some r \<Rightarrow> if r = empty_result then None
                                            else py_or (error_description r) (Some (dumps r))))),
                  s2)
               else
                 (Inr (get_or_empty (case result of None \<Rightarrow> None | Some r \<Rightarrow> access_token r)),
                  save_cache s2)))"

section \<open>Device code flow\<close>

record login_instructions =
  li_flow_id :: string
  li_user_code :: string
  li_verification_uri :: "string option"
  li_expires_in :: "int option"
  li_interval :: "int option"
  li_message :: "string option"

text \<open>
  \<^verbatim>\<open>start_device_login\<close>. \<open>initiate\<close> is the library's \<^verbatim>\<open>initiate_device_flow\<close> for this
  call and \<open>uuid\<close> the text of the \<^verbatim>\<open>uuid.uuid4()\<close> drawn.
\<close>

definition start_device_login :: "(string list \<Rightarrow> error + device_flow) \<Rightarrow> string
    \<Rightarrow> manager \<Rightarrow> (error + login_instructions) \<times> manager" where
  "start_device_login initiate uuid s =
     (case initiate (scopes s) of
        Inl e \<Rightarrow> (Inl e, s)
      | Inr flow \<Rightarrow>
          (case flow_user_code flow of
             None \<Rightarrow> (Inl (AuthenticationError ''Failed to start the device login flow''), s)
           | Some code \<Rightarrow>
               (Inr \<lparr>li_flow_id = uuid, li_user_code = code,
                     li_verification_uri =
                       py_or (flow_verification_uri flow) (flow_verification_uri_complete flow),
                     li_expires_in = flow_expires_in flow,
                     li_interval = flow_interval flow,
                     li_message = flow_message flow\<rparr>,
                s\<lparr>pending_device_flows := AList.update uuid flow (pending_device_flows s),
                  logger := logger s @
                    [Info (''Initiated device login flow '' @ uuid @ '' for Microsoft Graph'')]\<rparr>)))"

record login_result =
  lr_success :: bool
  lr_account :: "AccountSummary option"
  lr_expires_in :: "int option"
  lr_scope :: "string option"
  lr_token_type :: "string option"

text \<open>The user name \<^verbatim>\<open>complete_device_login\<close> looks for: the returned account's, else the
  claims' \<^verbatim>\<open>preferred_username\<close>, else their \<^verbatim>\<open>email\<close>.\<close>

definition preferred_username_of :: "token_result \<Rightarrow> string option" where
  "preferred_username_of r =
     (let p = (case account r of None \<Rightarrow> None
               | Some ai \<Rightarrow> if ai = empty_account then None else acc_username ai)
      in if truthy p then p
         else let claims = (case id_token_claims r of None \<Rightarrow> empty_claims | Some c \<Rightarrow> c)
              in py_or (preferred_username claims) (email claims))"

text \<open>
  The choice of the account to activate, on the pointer before it. \<open>by_username\<close> is the
  library's \<^verbatim>\<open>get_accounts(username=...)\<close>, \<open>accounts\<close> its \<^verbatim>\<open>get_accounts()\<close>. The
  result is the chosen account and the new pointer.
\<close>

definition select_after_login :: "(string \<Rightarrow> account list \<Rightarrow> account list) \<Rightarrow> string option
    \<Rightarrow> account list \<Rightarrow> string option \<Rightarrow> account option \<times> string option" where
  "select_after_login by_username pu accounts active =
     (let (sel1, act1) =
            (case pu of
               None \<Rightarrow> (None, active)
             | Some u \<Rightarrow>
                 if u = [] then (None, active)
                 else (case by_username u accounts of
                         [] \<Rightarrow> (None, active)
                       | m # ms \<Rightarrow> (Some m, acc_home_account_id m)))
      in if sel1 = None \<or> sel1 = Some empty_account then
           (if accounts \<noteq> [] then (Some (last accounts), acc_home_account_id (last accounts))
            else (sel1, act1))
         else (sel1, act1))"

definition flow_not_found_message :: string where
  "flow_not_found_message =
     ''The requested device flow does not exist or has already been completed.''"

text \<open>
  \<^verbatim>\<open>complete_device_login\<close>. \<open>exchange\<close> is the library's \<^verbatim>\<open>acquire_token_by_device_flow\<close>
  for this call. The flow is popped first; every later line runs on the manager without
  it.
\<close>

definition complete_device_login :: "(string \<Rightarrow> account list \<Rightarrow> account list)
    \<Rightarrow> (device_flow \<Rightarrow> int option \<Rightarrow> token_cache \<Rightarrow> provider_outcome)
    \<Rightarrow> string \<Rightarrow> int option \<Rightarrow> manager \<Rightarrow> (error + login_result) \<times> manager" where
  "complete_device_login by_username exchange flow_id timeout s =
     (let flow0 = map_of (pending_device_flows s) flow_id;
          s1 = s\<lparr>pending_device_flows := AList.delete flow_id (pending_device_flows s)\<rparr>
      in case flow0 of
           None \<Rightarrow> (Inl (AuthenticationFlowNotFound flow_not_found_message), s1)
         | Some flow \<Rightarrow>
             if flow = empty_flow then
               (Inl (AuthenticationFlowNotFound flow_not_found_message), s1)
             else
               (case exchange flow timeout (token_cache s1) of
                  Inl e \<Rightarrow> (Inl e, s1)
                | Inr (result, cache') \<Rightarrow>
                    let s2 = s1\<lparr>token_cache := cache'\<rparr> in
                    (case result of
                       None \<Rightarrow> (Inl (AuthenticationError ''Device login did not succeed.''), s2)
                     | Some r \<Rightarrow>
                         if access_token r = None then
                           (Inl (AuthenticationError
                              (''Device login did not succeed.'' @ details (error_description r))),
                            s2)
                         else
                           let s3 = save_cache s2;
                               (selected, act) =
                                 select_after_login by_username (preferred_username_of r)
                                   (get_accounts s3) (active_account_id s3);
                               summary = set_active (serialize_account act selected);
                               s4 = s3\<lparr>active_account_id := act,
                                       logger := logger s3 @
                                         [Info (''Device login completed for account '' @
                                            (case summary of None \<Rightarrow> ''unknown''
                                             | Some sm \<Rightarrow> username sm))]\<rparr>
                           in (Inr \<lparr>lr_success = True, lr_account = summary,
                                    lr_expires_in = expires_in r, lr_scope = scope r,
                                    lr_token_type = token_type r\<rparr>,
                               s4))))"

section \<open>Diagnostics\<close>

record context_snapshot =
  cx_active_account :: "AccountSummary option"
  cx_available_accounts :: "AccountSummary list"
  cx_scopes :: "string list"
  cx_cache_path :: string

definition get_context :: "manager \<Rightarrow> context_snapshot \<times> manager" where
  "get_context s =
     (case get_active_account_summary s of
        (active, s1) \<Rightarrow>
          (case list_accounts s1 of
             (available, s2) \<Rightarrow>
               (\<lparr>cx_active_account = active, cx_available_accounts = available,
                 cx_scopes = scopes s2, cx_cache_path = cache_path s2\<rparr>, s2)))"

section \<open>Sequences of calls\<close>

text \<open>
  One call of the manager, with what the outside world answers to it. \<open>step\<close> is the
  manager after the call, whether it returned or raised.
\<close>

datatype op =
    ListAccounts
  | GetActiveAccount
  | GetActiveAccountSummary
  | SetActiveAccount "string option" "string option"
  | AcquireTokenSilent "token_result \<Rightarrow> string"
      "string list \<Rightarrow> account \<Rightarrow> token_cache \<Rightarrow> provider_outcome"
  | StartDeviceLogin "string list \<Rightarrow> error + device_flow" string
  | CompleteDeviceLogin "string \<Rightarrow> account list \<Rightarrow> account list"
      "device_flow \<Rightarrow> int option \<Rightarrow> token_cache \<Rightarrow> provider_outcome" string "int option"
  | GetContext

fun step :: "op \<Rightarrow> manager \<Rightarrow> manager" where
  "step ListAccounts s = snd (list_accounts s)"
| "step GetActiveAccount s = snd (get_active_account s)"
| "step GetActiveAccountSummary s = snd (get_active_account_summary s)"
| "step (SetActiveAccount hid un) s = snd (set_active_account s hid un)"
| "step (AcquireTokenSilent dumps silent) s = snd (acquire_token_silent dumps silent s)"
| "step (StartDeviceLogin initiate uuid) s = snd (start_device_login initiate uuid s)"
| "step (CompleteDeviceLogin by_username exchange flow_id timeout) s =
     snd (complete_device_login by_username exchange flow_id timeout s)"
| "step GetContext s = snd (get_context s)"

fun run :: "op list \<Rightarrow> manager \<Rightarrow> manager" where
  "run [] s = s"
| "run (c # cs) s = run cs (step c s)"

text \<open>A call that stores a flow under the identifier \<open>fid\<close>.\<close>

fun issues :: "string \<Rightarrow> op \<Rightarrow> bool" where
  "issues fid (StartDeviceLogin initiate uuid) = (uuid = fid)"
| "issues fid c = False"

section \<open>Notions used in the statements\<close>



text \<open>The summary of an account with a given flag.\<close>

definition summary_of :: "account \<Rightarrow> bool \<Rightarrow> AccountSummary" where
  "summary_of a b = \<lparr>username = get_or_empty (acc_username a), name = acc_name a,
     home_account_id = get_or_empty (acc_home_account_id a),
     environment = acc_environment a, tenant_profiles = acc_tenant_profiles a,
     is_active = b\<rparr>"

text \<open>The three places \<^verbatim>\<open>complete_device_login\<close> reads a user name from.\<close>

definition account_username :: "token_result \<Rightarrow> string option" where
  "account_username r =
     (case account r of None \<Rightarrow> None
      | Some ai \<Rightarrow> if ai = empty_account then None else acc_username ai)"

definition claim_preferred_username :: "token_result \<Rightarrow> string option" where
  "claim_preferred_username r =
     (case id_token_claims r of None \<Rightarrow> None | Some c \<Rightarrow> preferred_username c)"

definition claim_email :: "token_result \<Rightarrow> string option" where
  "claim_email r = (case id_token_claims r of None \<Rightarrow> None | Some c \<Rightarrow> email c)"

text \<open>The accounts \<^verbatim>\<open>get_accounts(username=preferred_username)\<close> answers with; none when
  the result carries no user name, since the library is not asked then.\<close>

definition matching_accounts :: "(string \<Rightarrow> account list \<Rightarrow> account list) \<Rightarrow> token_result
    \<Rightarrow> account list \<Rightarrow> account list" where
  "matching_accounts by_username r accounts =
     (case preferred_username_of r of None \<Rightarrow> []
      | Some u \<Rightarrow> if u = [] then [] else by_username u accounts)"

section \<open>Example data\<close>

definition alice :: account where
  "alice = \<lparr>acc_username = Some ''alice@example.com'', acc_name = Some ''Alice'',
     acc_home_account_id = Some ''uid-alice'',
     acc_environment = Some ''login.microsoftonline.com'', acc_tenant_profiles = None\<rparr>"

definition bob :: account where
  "bob = \<lparr>acc_username = Some ''bob@example.com'', acc_name = Some ''Bob'',
     acc_home_account_id = Some ''uid-bob'',
     acc_environment = Some ''login.microsoftonline.com'', acc_tenant_profiles = None\<rparr>"

text \<open>An earlier account under the user name of \<open>alice\<close>.\<close>

definition alice_old :: account where
  "alice_old = \<lparr>acc_username = Some ''alice@example.com'', acc_name = Some ''Alice'',
     acc_home_account_id = Some ''uid-alice-old'',
     acc_environment = Some ''login.microsoftonline.com'', acc_tenant_profiles = None\<rparr>"

definition example_cache :: "account list \<Rightarrow> token_cache" where
  "example_cache as = \<lparr>cached_accounts = as, serialized = ''{}'', has_state_changed = False\<rparr>"

definition example_manager :: "account list \<Rightarrow> string option \<Rightarrow> manager" where
  "example_manager as act = \<lparr>logger = [], scopes = [''User.Read''],
     cache_path = ''token_cache.bin'', pending_device_flows = [],
     active_account_id = act, token_cache = example_cache as,
     disk = Missing, disk_write = WriteOk\<rparr>"

definition example_flow :: device_flow where
  "example_flow = \<lparr>flow_user_code = Some ''ABCD1234'',
     flow_verification_uri = Some ''https://microsoft.com/devicelogin'',
     flow_verification_uri_complete = None, flow_expires_in = Some 900,
     flow_interval = Some 5, flow_message = Some ''Open the page and enter the code'',
     flow_state = Some ''device-code''\<rparr>"

definition example_instructions :: "string \<Rightarrow> login_instructions" where
  "example_instructions fid = \<lparr>li_flow_id = fid, li_user_code = ''ABCD1234'',
     li_verification_uri = Some ''https://microsoft.com/devicelogin'',
     li_expires_in = Some 900, li_interval = Some 5,
     li_message = Some ''Open the page and enter the code''\<rparr>"

text \<open>A result with a token for \<open>alice\<close>, and one without a token.\<close>

definition token_for_alice :: token_result where
  "token_for_alice = \<lparr>access_token = Some ''eyJ0'', error_description = None,
     account = Some alice, id_token_claims = None, expires_in = Some 3600,
     scope = Some ''User.Read'', token_type = Some ''Bearer''\<rparr>"

definition denied :: token_result where
  "denied = \<lparr>access_token = None, error_description = Some ''authorization_declined'',
     account = None, id_token_claims = None, expires_in = None, scope = None,
     token_type = None\<rparr>"

text \<open>The filter the library documents for \<^verbatim>\<open>get_accounts(username=...)\<close>: the accounts
  whose user name is the given one, letter case aside. The theorems take the filter as a
  parameter; this one serves the examples.\<close>

definition accounts_with_username :: "string \<Rightarrow> account list \<Rightarrow> account list" where
  "accounts_with_username u as =
     filter (\<lambda>a. lower (get_or_empty (acc_username a)) = lower u) as"

text \<open>A deserializer that rejects every text, as a parser does on a damaged file.\<close>

definition rejecting :: "string \<Rightarrow> error + token_cache" where
  "rejecting d = Inl (ValueError ''Expecting value'')"

section \<open>Helper lemmas\<close>

lemma find_account_None: "(find_account i as = None) = (i \<notin> acc_home_account_id ` set as)"
  by (induction as) auto

lemma find_account_Some:
  "find_account i as = Some a \<Longrightarrow> a \<in> set as \<and> acc_home_account_id a = i"
  by (induction as) (auto split: if_splits)

lemma get_active_account_frame:
  "get_accounts (snd (get_active_account s)) = get_accounts s"
  "scopes (snd (get_active_account s)) = scopes s"
  "token_cache (snd (get_active_account s)) = token_cache s"
  "pending_device_flows (snd (get_active_account s)) = pending_device_flows s"
  by (simp_all add: get_active_account_def get_accounts_def split: option.splits)

lemma save_cache_frame:
  "active_account_id (save_cache s) = active_account_id s"
  "pending_device_flows (save_cache s) = pending_device_flows s"
  "get_accounts (save_cache s) = get_accounts s"
  by (simp_all add: save_cache_def get_accounts_def split: write_outcome.splits)

lemma set_active_serialize:
  "a \<noteq> empty_account \<Longrightarrow> set_active (serialize_account p (Some a)) = Some (summary_of a True)"
  by (simp add: serialize_account_def set_active_def summary_of_def)

lemma truthy_id_nonempty: "truthy (acc_home_account_id a) \<Longrightarrow> a \<noteq> empty_account"
  by (auto simp: truthy_def empty_account_def)

lemma present_Nil: "present [] = []"
  by (simp add: present_def map_filter_simps)

lemma present_Cons:
  "present (x # xs) = (case x of None \<Rightarrow> present xs | Some y \<Rightarrow> y # present xs)"
  by (cases x) (simp_all add: present_def map_filter_simps)

lemma delete_absent: "map_of xs k = None \<Longrightarrow> AList.delete k xs = xs"
  by (induction xs) (auto split: if_splits)

lemma complete_absent:
  "map_of (pending_device_flows s) fid = None \<Longrightarrow>
   complete_device_login by_username exchange fid t s =
     (Inl (AuthenticationFlowNotFound flow_not_found_message), s)"
  by (simp add: complete_device_login_def delete_absent)

section \<open>Auto-selection of a sole account by \<^verbatim>\<open>list_accounts\<close>\<close>

lemma list_accounts_promote:
  assumes "\<not> truthy (active_account_id s)" and "get_accounts s = [a]"
    and "a \<noteq> empty_account"
  shows "list_accounts s = ([summary_of a True], s\<lparr>active_account_id := acc_home_account_id a\<rparr>)"
  using assms
  by (simp add: list_accounts_def serialize_account_def set_active_def summary_of_def
      present_Nil present_Cons)

lemma list_accounts_report:
  assumes "truthy (active_account_id s)" and "get_accounts s = [a]"
    and "acc_home_account_id a = active_account_id s"
  shows "list_accounts s = ([summary_of a True], s)"
proof -
  have ne: "a \<noteq> empty_account"
    using assms(1,3) by (simp add: truthy_id_nonempty)
  have "Some (get_or_empty (acc_home_account_id a)) = active_account_id s"
    using assms(1,3) by (cases "active_account_id s") (simp_all add: truthy_def get_or_empty_def)
  with assms(1,2) ne show ?thesis
    by (simp add: list_accounts_def serialize_account_def reflag_def summary_of_def
        present_Nil present_Cons)
qed

text \<open>
  Claim C1, as amended. When the active pointer is unset (\<^verbatim>\<open>None\<close> or the empty
  string) and the store holds exactly one account, which carries a non-empty home-account
  identifier, \<^verbatim>\<open>list_accounts\<close> sets the pointer to that identifier and reports the
  account with \<open>is_active\<close> true; a second call finds the pointer set, so the rule's
  guard no longer holds, and it reports the same list and leaves the manager as it is.
\<close>

theorem list_accounts_promotes_sole_account:
  assumes "\<not> truthy (active_account_id s)" and "get_accounts s = [a]"
    and "truthy (acc_home_account_id a)"
  shows "list_accounts s = ([summary_of a True], s\<lparr>active_account_id := acc_home_account_id a\<rparr>)
     \<and> truthy (active_account_id (snd (list_accounts s)))
     \<and> list_accounts (snd (list_accounts s)) = ([summary_of a True], snd (list_accounts s))"
proof -
  have ne: "a \<noteq> empty_account" using assms(3) by (rule truthy_id_nonempty)
  have first: "list_accounts s =
      ([summary_of a True], s\<lparr>active_account_id := acc_home_account_id a\<rparr>)"
    using assms(1,2) ne by (rule list_accounts_promote)
  have "list_accounts (s\<lparr>active_account_id := acc_home_account_id a\<rparr>) =
      ([summary_of a True], s\<lparr>active_account_id := acc_home_account_id a\<rparr>)"
    using assms(2,3) by (intro list_accounts_report) (simp_all add: get_accounts_def)
  with first assms(3) show ?thesis by simp
qed

theorem list_accounts_promotes_sole_account_witness:
  "\<not> truthy (active_account_id (example_manager [alice] None))
   \<and> get_accounts (example_manager [alice] None) = [alice]
   \<and> truthy (acc_home_account_id alice)
   \<and> list_accounts (example_manager [alice] None) =
       ([summary_of alice True], example_manager [alice] (Some ''uid-alice''))
   \<and> list_accounts (example_manager [alice] (Some ''uid-alice'')) =
       ([summary_of alice True], example_manager [alice] (Some ''uid-alice''))"
proof -
  have h1: "\<not> truthy (active_account_id (example_manager [alice] None))"
    by (simp add: example_manager_def truthy_def)
  have h2: "get_accounts (example_manager [alice] None) = [alice]"
    by (simp add: example_manager_def example_cache_def get_accounts_def)
  have h3: "truthy (acc_home_account_id alice)"
    by (simp add: alice_def truthy_def)
  have e: "(example_manager [alice] None)\<lparr>active_account_id := acc_home_account_id alice\<rparr>
      = example_manager [alice] (Some ''uid-alice'')"
    by (simp add: example_manager_def alice_def)
  note t = list_accounts_promotes_sole_account [OF h1 h2 h3, unfolded e]
  have a: "list_accounts (example_manager [alice] None) =
      ([summary_of alice True], example_manager [alice] (Some ''uid-alice''))"
    using t by simp
  have b: "list_accounts (example_manager [alice] (Some ''uid-alice'')) =
      ([summary_of alice True], example_manager [alice] (Some ''uid-alice''))"
    using t unfolding a by simp
  show ?thesis using h1 h2 h3 a b by simp
qed

text \<open>
  Claim C1 as stated fails on a stale pointer: with one stored account and a pointer
  naming an identifier the store no longer has, no account resolves as active, and yet
  \<^verbatim>\<open>list_accounts\<close> reports the sole account with \<open>is_active\<close> false and leaves the pointer
  as it is. The guard of the rule reads the pointer, not the store.
\<close>

theorem list_accounts_stale_pointer_counterexample:
  "fst (get_active_account (example_manager [alice] (Some ''uid-gone''))) = None
   \<and> get_accounts (example_manager [alice] (Some ''uid-gone'')) = [alice]
   \<and> list_accounts (example_manager [alice] (Some ''uid-gone'')) =
       ([summary_of alice False], example_manager [alice] (Some ''uid-gone''))"
  by (simp add: get_active_account_def list_accounts_def example_manager_def example_cache_def
      get_accounts_def truthy_def serialize_account_def alice_def empty_account_def reflag_def
      present_Nil present_Cons summary_of_def get_or_empty_def)

section \<open>Single use of a flow identifier\<close>

lemma pending_list_accounts:
  "pending_device_flows (snd (list_accounts s)) = pending_device_flows s"
  by (simp add: list_accounts_def Let_def)

lemma pending_get_active_account_summary:
  "pending_device_flows (snd (get_active_account_summary s)) = pending_device_flows s"
  by (simp add: get_active_account_summary_def case_prod_unfold get_active_account_frame)

lemma pending_set_active_account:
  "pending_device_flows (snd (set_active_account s hid un)) = pending_device_flows s"
  by (simp add: set_active_account_def split: option.splits prod.splits)

lemma pending_resolve_account:
  "pending_device_flows (snd (resolve_account s)) = pending_device_flows s"
  by (simp add: resolve_account_def case_prod_unfold get_active_account_frame
      split: list.splits option.splits)

lemma pending_acquire_token_silent:
  "pending_device_flows (snd (acquire_token_silent dumps silent s)) = pending_device_flows s"
  by (simp add: acquire_token_silent_def Let_def case_prod_unfold save_cache_frame
      pending_resolve_account split: sum.splits)

lemma pending_get_context:
  "pending_device_flows (snd (get_context s)) = pending_device_flows s"
  by (simp add: get_context_def case_prod_unfold pending_get_active_account_summary
      pending_list_accounts)

lemma pending_start_other:
  "uuid \<noteq> fid \<Longrightarrow>
   map_of (pending_device_flows (snd (start_device_login initiate uuid s))) fid =
   map_of (pending_device_flows s) fid"
  by (simp add: start_device_login_def update_conv' split: sum.splits option.splits)

lemma pending_complete:
  "map_of (pending_device_flows (snd (complete_device_login by_username exchange k t s))) fid =
   (if fid = k then None else map_of (pending_device_flows s) fid)"
  by (simp add: complete_device_login_def Let_def save_cache_frame delete_conv'
      split: option.splits sum.splits prod.splits)

lemma step_keeps_absent:
  "\<not> issues fid c \<Longrightarrow> map_of (pending_device_flows s) fid = None \<Longrightarrow>
   map_of (pending_device_flows (step c s)) fid = None"
  by (cases c)
     (simp_all add: pending_list_accounts get_active_account_frame
        pending_get_active_account_summary pending_set_active_account
        pending_acquire_token_silent pending_get_context pending_start_other pending_complete)

lemma run_keeps_absent:
  "\<forall>c\<in>set cs. \<not> issues fid c \<Longrightarrow> map_of (pending_device_flows s) fid = None \<Longrightarrow>
   map_of (pending_device_flows (run cs s)) fid = None"
  by (induction cs arbitrary: s) (simp_all add: step_keeps_absent)

lemma start_issues:
  "fst (start_device_login initiate fid s) = Inr li \<Longrightarrow>
   li_flow_id li = fid
   \<and> (\<exists>flow. map_of (pending_device_flows (snd (start_device_login initiate fid s))) fid
         = Some flow \<and> flow \<noteq> empty_flow)"
  by (auto simp: start_device_login_def update_conv' empty_flow_def
      split: sum.splits option.splits)

text \<open>
  Claim C2. Let \<open>fid\<close> be the identifier \<^verbatim>\<open>start_device_login\<close> returned. The flow is then
  pending under \<open>fid\<close>. The first \<^verbatim>\<open>complete_device_login\<close> with \<open>fid\<close> leaves a manager
  without it, whatever the exchange does: raise, return no token, or succeed (the pop
  comes before the exchange, so the manager an exception leaves behind lacks it too).
  After that, and after any further calls among which no \<^verbatim>\<open>start_device_login\<close> draws
  the same identifier again, every \<^verbatim>\<open>complete_device_login\<close> with \<open>fid\<close> raises
  \<^verbatim>\<open>AuthenticationFlowNotFound\<close> and changes nothing.
\<close>

theorem flow_identifier_single_use:
  assumes "fst (start_device_login initiate fid s0) = Inr li"
    and "\<forall>c\<in>set cs. \<not> issues fid c"
  shows "li_flow_id li = fid
    \<and> (\<exists>flow. map_of (pending_device_flows (snd (start_device_login initiate fid s0))) fid
          = Some flow \<and> flow \<noteq> empty_flow)
    \<and> map_of (pending_device_flows (snd (complete_device_login by_username exchange fid t
          (snd (start_device_login initiate fid s0))))) fid = None
    \<and> complete_device_login by_username' exchange' fid t'
         (run cs (snd (complete_device_login by_username exchange fid t
            (snd (start_device_login initiate fid s0))))) =
       (Inl (AuthenticationFlowNotFound flow_not_found_message),
        run cs (snd (complete_device_login by_username exchange fid t
            (snd (start_device_login initiate fid s0)))))"
proof -
  let ?s2 = "snd (complete_device_login by_username exchange fid t
               (snd (start_device_login initiate fid s0)))"
  have gone: "map_of (pending_device_flows ?s2) fid = None"
    by (simp add: pending_complete)
  have later: "map_of (pending_device_flows (run cs ?s2)) fid = None"
    using assms(2) gone by (rule run_keeps_absent)
  show ?thesis
    using start_issues [OF assms(1)] gone complete_absent [OF later] by simp
qed

theorem flow_identifier_single_use_witness:
  "fst (start_device_login (\<lambda>sc. Inr example_flow) ''flow-1'' (example_manager [] None))
     = Inr (example_instructions ''flow-1'')
   \<and> \<not> issues ''flow-1'' ListAccounts
   \<and> \<not> issues ''flow-1'' (StartDeviceLogin (\<lambda>sc. Inr example_flow) ''flow-2'')
   \<and> complete_device_login accounts_with_username (\<lambda>f t c. Inr (Some token_for_alice, c))
       ''flow-1'' None
       (run [ListAccounts, StartDeviceLogin (\<lambda>sc. Inr example_flow) ''flow-2'']
         (snd (complete_device_login accounts_with_username (\<lambda>f t c. Inr (Some denied, c))
            ''flow-1'' None
            (snd (start_device_login (\<lambda>sc. Inr example_flow) ''flow-1''
               (example_manager [] None)))))) =
     (Inl (AuthenticationFlowNotFound flow_not_found_message),
      run [ListAccounts, StartDeviceLogin (\<lambda>sc. Inr example_flow) ''flow-2'']
         (snd (complete_device_login accounts_with_username (\<lambda>f t c. Inr (Some denied, c))
            ''flow-1'' None
            (snd (start_device_login (\<lambda>sc. Inr example_flow) ''flow-1''
               (example_manager [] None))))))"
proof -
  have h1: "fst (start_device_login (\<lambda>sc. Inr example_flow) ''flow-1''
      (example_manager [] None)) = Inr (example_instructions ''flow-1'')"
    by (simp add: start_device_login_def example_flow_def example_instructions_def py_or_def
        truthy_def)
  have h2: "\<forall>c\<in>set [ListAccounts, StartDeviceLogin (\<lambda>sc. Inr example_flow) ''flow-2''].
      \<not> issues ''flow-1'' c"
    by simp
  show ?thesis
    using flow_identifier_single_use [OF h1 h2] h1 h2 by simp
qed

section \<open>Unknown flow identifiers\<close>

text \<open>
  Claim C6. For a flow identifier that is not in the pending-flow map,
  \<^verbatim>\<open>complete_device_login\<close> raises \<^verbatim>\<open>AuthenticationFlowNotFound\<close>, an object of that
  class and not of plain \<^verbatim>\<open>AuthenticationError\<close>, and leaves the manager as it is.
  The class tells the case apart from the others: for a pending flow whose exchange
  returns, whatever \<^verbatim>\<open>complete_device_login\<close> raises is not of that class.
\<close>

theorem complete_unknown_flow_not_found:
  "(map_of (pending_device_flows s) fid = None \<longrightarrow>
      complete_device_login by_username exchange fid t s =
        (Inl (AuthenticationFlowNotFound flow_not_found_message), s)
      \<and> (\<forall>msg. fst (complete_device_login by_username exchange fid t s)
            \<noteq> Inl (AuthenticationError msg)))
   \<and> (\<forall>flow out. map_of (pending_device_flows s) fid = Some flow \<and> flow \<noteq> empty_flow
          \<and> exchange flow t (token_cache s) = Inr out \<longrightarrow>
        (\<forall>msg. fst (complete_device_login by_username exchange fid t s)
            \<noteq> Inl (AuthenticationFlowNotFound msg)))"
proof (intro conjI impI allI)
  assume "map_of (pending_device_flows s) fid = None"
  then show "complete_device_login by_username exchange fid t s =
      (Inl (AuthenticationFlowNotFound flow_not_found_message), s)"
    by (rule complete_absent)
next
  fix msg
  assume "map_of (pending_device_flows s) fid = None"
  then show "fst (complete_device_login by_username exchange fid t s)
      \<noteq> Inl (AuthenticationError msg)"
    by (simp add: complete_absent)
next
  fix flow out msg
  assume "map_of (pending_device_flows s) fid = Some flow \<and> flow \<noteq> empty_flow
      \<and> exchange flow t (token_cache s) = Inr out"
  then show "fst (complete_device_login by_username exchange fid t s)
      \<noteq> Inl (AuthenticationFlowNotFound msg)"
    by (cases out)
       (simp add: complete_device_login_def Let_def case_prod_unfold split: option.splits)
qed

theorem complete_unknown_flow_not_found_witness:
  "map_of (pending_device_flows (example_manager [] None)) ''flow-9'' = None
   \<and> complete_device_login accounts_with_username (\<lambda>f t c. Inr (Some token_for_alice, c))
       ''flow-9'' None (example_manager [] None) =
     (Inl (AuthenticationFlowNotFound flow_not_found_message), example_manager [] None)
   \<and> map_of (pending_device_flows
        ((example_manager [] None)\<lparr>pending_device_flows := [(''flow-1'', example_flow)]\<rparr>))
        ''flow-1'' = Some example_flow
   \<and> example_flow \<noteq> empty_flow
   \<and> fst (complete_device_login accounts_with_username (\<lambda>f t c. Inr (Some denied, c))
        ''flow-1'' None
        ((example_manager [] None)\<lparr>pending_device_flows := [(''flow-1'', example_flow)]\<rparr>))
       \<noteq> Inl (AuthenticationFlowNotFound flow_not_found_message)"
proof -
  let ?P = "(example_manager [] None)\<lparr>pending_device_flows := [(''flow-1'', example_flow)]\<rparr>"
  have h: "map_of (pending_device_flows (example_manager [] None)) ''flow-9'' = None"
    by (simp add: example_manager_def)
  have p: "map_of (pending_device_flows ?P) ''flow-1'' = Some example_flow"
    by simp
  have n: "example_flow \<noteq> empty_flow"
    by (simp add: example_flow_def empty_flow_def)
  have unknown: "complete_device_login accounts_with_username
      (\<lambda>f t c. Inr (Some token_for_alice, c)) ''flow-9'' None (example_manager [] None) =
     (Inl (AuthenticationFlowNotFound flow_not_found_message), example_manager [] None)"
    using complete_unknown_flow_not_found [of "example_manager [] None" "''flow-9''"
        accounts_with_username "\<lambda>f t c. Inr (Some token_for_alice, c)" None] h
    by simp
  have known: "fst (complete_device_login accounts_with_username
      (\<lambda>f t c. Inr (Some denied, c)) ''flow-1'' None ?P)
       \<noteq> Inl (AuthenticationFlowNotFound flow_not_found_message)"
    using complete_unknown_flow_not_found [of ?P "''flow-1''"
        accounts_with_username "\<lambda>f t c. Inr (Some denied, c)" None] p n
    by simp
  show ?thesis using h p n unknown known by simp
qed

section \<open>Silent token acquisition\<close>

text \<open>
  Claim C4. With no account in the store and no active pointer (\<^verbatim>\<open>None\<close>, or the empty
  string, which Python takes for unset as well), \<^verbatim>\<open>acquire_token_silent\<close> raises
  \<^verbatim>\<open>AuthenticationError\<close> with the message that points to the authentication tools; the
  library is not asked for a token and the manager stays as it is.
\<close>

theorem acquire_token_silent_unauthenticated:
  "get_accounts s = [] \<Longrightarrow> \<not> truthy (active_account_id s) \<Longrightarrow>
   acquire_token_silent dumps silent s =
     (Inl (AuthenticationError no_active_account_message), s)"
  by (simp add: acquire_token_silent_def resolve_account_def get_active_account_def)

theorem acquire_token_silent_unauthenticated_witness:
  "get_accounts (example_manager [] None) = []
   \<and> \<not> truthy (active_account_id (example_manager [] None))
   \<and> acquire_token_silent (\<lambda>r. ''{}'') (\<lambda>sc a c. Inr (Some token_for_alice, c))
       (example_manager [] None) =
     (Inl (AuthenticationError
        (''No active Microsoft account selected. Use the authentication tools to sign in ''
         @ ''and select an account.'')), example_manager [] None)"
proof -
  have h1: "get_accounts (example_manager [] None) = []"
    by (simp add: example_manager_def example_cache_def get_accounts_def)
  have h2: "\<not> truthy (active_account_id (example_manager [] None))"
    by (simp add: example_manager_def truthy_def)
  show ?thesis
    using acquire_token_silent_unauthenticated [OF h1 h2] h1 h2
    by (simp add: no_active_account_message_def)
qed

lemma resolve_sole_account:
  assumes "fst (get_active_account s) = None" and "get_accounts s = [a]"
  shows "resolve_account s =
    (Inr a, (snd (get_active_account s))\<lparr>active_account_id := acc_home_account_id a\<rparr>)"
proof -
  obtain s1 where g: "get_active_account s = (None, s1)"
    using assms(1) by (cases "get_active_account s") simp
  have "get_accounts s1 = [a]"
    using get_active_account_frame(1) [of s] g assms(2) by simp
  with g show ?thesis by (simp add: resolve_account_def)
qed

text \<open>
  Claim C10. When no active account resolves (the pointer is unset or stale) and the
  store holds exactly one account, \<^verbatim>\<open>acquire_token_silent\<close> sets the pointer to that
  account's identifier before it asks the library, and the pointer stays so in the
  manager every outcome leaves: an exception of the library, a token, and in particular
  a result without a token, on which the call raises \<^verbatim>\<open>AuthenticationError\<close>.
\<close>

theorem acquire_token_silent_keeps_selection:
  assumes "fst (get_active_account s) = None" and "get_accounts s = [a]"
  shows "active_account_id (snd (acquire_token_silent dumps silent s)) = acc_home_account_id a
    \<and> (\<forall>result cache'. silent (scopes s) a (token_cache s) = Inr (result, cache')
          \<and> no_token result \<longrightarrow>
          (\<exists>msg. fst (acquire_token_silent dumps silent s) = Inl (AuthenticationError msg)))"
  using resolve_sole_account [OF assms] get_active_account_frame(2,3) [of s]
  by (auto simp: acquire_token_silent_def Let_def save_cache_frame split: sum.splits prod.splits)

theorem acquire_token_silent_keeps_selection_witness:
  "fst (get_active_account (example_manager [alice] (Some ''uid-gone''))) = None
   \<and> get_accounts (example_manager [alice] (Some ''uid-gone'')) = [alice]
   \<and> no_token (Some denied)
   \<and> active_account_id (snd (acquire_token_silent (\<lambda>r. ''{}'') (\<lambda>sc a c. Inr (Some denied, c))
        (example_manager [alice] (Some ''uid-gone'')))) = Some ''uid-alice''
   \<and> (\<exists>msg. fst (acquire_token_silent (\<lambda>r. ''{}'') (\<lambda>sc a c. Inr (Some denied, c))
        (example_manager [alice] (Some ''uid-gone''))) = Inl (AuthenticationError msg))"
proof -
  have h1: "fst (get_active_account (example_manager [alice] (Some ''uid-gone''))) = None"
    by (simp add: get_active_account_def example_manager_def example_cache_def
        get_accounts_def truthy_def alice_def)
  have h2: "get_accounts (example_manager [alice] (Some ''uid-gone'')) = [alice]"
    by (simp add: example_manager_def example_cache_def get_accounts_def)
  have h3: "no_token (Some denied)"
    by (simp add: no_token_def denied_def)
  have h4: "acc_home_account_id alice = Some ''uid-alice''"
    by (simp add: alice_def)
  show ?thesis
    using acquire_token_silent_keeps_selection [OF h1 h2, of "\<lambda>r. ''{}''"
        "\<lambda>sc a c. Inr (Some denied, c)"] h1 h2 h3 h4
    by simp
qed

section \<open>Resolving and setting the active account\<close>

text \<open>
  Claim C8. Let the pointer hold an identifier (a non-empty string). When no stored
  account carries it, \<^verbatim>\<open>get_active_account\<close> returns \<^verbatim>\<open>None\<close> and leaves the pointer
  cleared. When one does, it returns a stored account with that identifier (the first
  such) and changes nothing.
\<close>

theorem get_active_account_resolution:
  assumes "active_account_id s = Some i" and "i \<noteq> []"
  shows "(Some i \<notin> acc_home_account_id ` set (get_accounts s) \<longrightarrow>
            get_active_account s = (None, s\<lparr>active_account_id := None\<rparr>))
       \<and> (Some i \<in> acc_home_account_id ` set (get_accounts s) \<longrightarrow>
            (\<exists>a. get_active_account s = (Some a, s) \<and> a \<in> set (get_accounts s)
                 \<and> acc_home_account_id a = Some i))"
proof (cases "find_account (Some i) (get_accounts s)")
  case None
  then have "Some i \<notin> acc_home_account_id ` set (get_accounts s)"
    by (simp add: find_account_None)
  with None assms show ?thesis
    by (simp add: get_active_account_def truthy_def)
next
  case (Some a)
  from find_account_Some [OF Some]
  have a: "a \<in> set (get_accounts s)" "acc_home_account_id a = Some i" by simp_all
  then have "Some i \<in> acc_home_account_id ` set (get_accounts s)" by force
  with Some assms a show ?thesis
    by (simp add: get_active_account_def truthy_def)
qed

theorem get_active_account_resolution_witness:
  "active_account_id (example_manager [alice] (Some ''uid-gone'')) = Some ''uid-gone''
   \<and> ''uid-gone'' \<noteq> []
   \<and> Some ''uid-gone'' \<notin> acc_home_account_id ` set (get_accounts
         (example_manager [alice] (Some ''uid-gone'')))
   \<and> get_active_account (example_manager [alice] (Some ''uid-gone'')) =
       (None, example_manager [alice] None)
   \<and> active_account_id (example_manager [alice, bob] (Some ''uid-bob'')) = Some ''uid-bob''
   \<and> ''uid-bob'' \<noteq> []
   \<and> Some ''uid-bob'' \<in> acc_home_account_id ` set (get_accounts
         (example_manager [alice, bob] (Some ''uid-bob'')))
   \<and> (\<exists>a. get_active_account (example_manager [alice, bob] (Some ''uid-bob'')) =
          (Some a, example_manager [alice, bob] (Some ''uid-bob''))
        \<and> a \<in> set (get_accounts (example_manager [alice, bob] (Some ''uid-bob'')))
        \<and> acc_home_account_id a = Some ''uid-bob'')"
proof -
  have k1: "active_account_id (example_manager [alice, bob] (Some ''uid-bob'')) = Some ''uid-bob''"
    by (simp add: example_manager_def)
  have k2: "''uid-bob'' \<noteq> []" by simp
  have k3: "Some ''uid-bob'' \<in> acc_home_account_id ` set (get_accounts
         (example_manager [alice, bob] (Some ''uid-bob'')))"
    by (simp add: example_manager_def example_cache_def get_accounts_def bob_def)
  have found: "\<exists>a. get_active_account (example_manager [alice, bob] (Some ''uid-bob'')) =
          (Some a, example_manager [alice, bob] (Some ''uid-bob''))
        \<and> a \<in> set (get_accounts (example_manager [alice, bob] (Some ''uid-bob'')))
        \<and> acc_home_account_id a = Some ''uid-bob''"
    using get_active_account_resolution [OF k1 k2] k3 by blast
  have h1: "active_account_id (example_manager [alice] (Some ''uid-gone'')) = Some ''uid-gone''"
    by (simp add: example_manager_def)
  have h2: "''uid-gone'' \<noteq> []" by simp
  have h3: "Some ''uid-gone'' \<notin> acc_home_account_id ` set (get_accounts
         (example_manager [alice] (Some ''uid-gone'')))"
    by (simp add: example_manager_def example_cache_def get_accounts_def alice_def)
  have e: "(example_manager [alice] (Some ''uid-gone''))\<lparr>active_account_id := None\<rparr>
      = example_manager [alice] None"
    by (simp add: example_manager_def)
  have stale: "get_active_account (example_manager [alice] (Some ''uid-gone'')) =
       (None, example_manager [alice] None)"
    using get_active_account_resolution [OF h1 h2] h3 by (simp add: e)
  show ?thesis
    using h1 h2 h3 stale k1 k2 k3 found by simp
qed

lemma select_account_None:
  "(select_account hid un as = None) =
     (\<forall>a\<in>set as. \<not> matches_id hid a \<and> \<not> matches_username un a)"
  by (induction as) auto

lemma select_account_Some:
  "select_account hid un as = Some (p, a) \<Longrightarrow>
     a \<in> set as \<and> (matches_id hid a \<or> matches_username un a) \<and> p = acc_home_account_id a"
  by (induction as) (auto simp: matches_id_def split: if_splits)

lemma matched_nonempty:
  "matches_id hid a \<or> matches_username un a \<Longrightarrow> a \<noteq> empty_account"
  by (auto simp: matches_id_def matches_username_def truthy_def empty_account_def
      get_or_empty_def lower_def split: option.splits)

text \<open>
  Claim C5. \<^verbatim>\<open>set_active_account\<close> raises \<^verbatim>\<open>AuthenticationError\<close> and leaves the manager,
  the pointer with it, as it was, when neither selector is given (each \<^verbatim>\<open>None\<close> or
  empty) or when no stored account has the given identifier or, letter case aside, the
  given user name. In every other case it returns the summary of a stored account that
  matches, with \<open>is_active\<close> true, and the pointer holds that account's identifier.
\<close>

theorem set_active_account_outcomes:
  "(if (\<not> truthy hid \<and> \<not> truthy un)
        \<or> (\<forall>a\<in>set (get_accounts s). \<not> matches_id hid a \<and> \<not> matches_username un a)
    then (\<exists>msg. set_active_account s hid un = (Inl (AuthenticationError msg), s))
    else (\<exists>a. a \<in> set (get_accounts s) \<and> (matches_id hid a \<or> matches_username un a)
            \<and> set_active_account s hid un =
                (Inr (Some (summary_of a True)),
                 s\<lparr>active_account_id := acc_home_account_id a\<rparr>)))"
proof (cases "\<not> truthy hid \<and> \<not> truthy un")
  case True
  then show ?thesis by (simp add: set_active_account_def)
next
  case given: False
  show ?thesis
  proof (cases "select_account hid un (get_accounts s)")
    case None
    then have "\<forall>a\<in>set (get_accounts s). \<not> matches_id hid a \<and> \<not> matches_username un a"
      by (simp add: select_account_None)
    with None given show ?thesis by (simp add: set_active_account_def)
  next
    case (Some pa)
    obtain p a where pa: "pa = (p, a)" by (cases pa)
    from select_account_Some [OF Some [unfolded pa]]
    have a: "a \<in> set (get_accounts s)" "matches_id hid a \<or> matches_username un a"
      "p = acc_home_account_id a" by simp_all
    have ne: "a \<noteq> empty_account" using a(2) by (rule matched_nonempty)
    have "set_active_account s hid un =
        (Inr (Some (summary_of a True)), s\<lparr>active_account_id := acc_home_account_id a\<rparr>)"
      using given Some pa a(3) ne
      by (simp add: set_active_account_def set_active_serialize)
    moreover have "\<not> (\<forall>a\<in>set (get_accounts s). \<not> matches_id hid a \<and> \<not> matches_username un a)"
      using a by blast
    ultimately show ?thesis using given a by auto
  qed
qed

theorem set_active_account_outcomes_witness:
  "\<not> matches_id (Some ''uid-nobody'') alice \<and> \<not> matches_username None alice
   \<and> \<not> matches_id (Some ''uid-nobody'') bob \<and> \<not> matches_username None bob
   \<and> (\<exists>msg. set_active_account (example_manager [alice, bob] (Some ''uid-alice''))
         (Some ''uid-nobody'') None =
         (Inl (AuthenticationError msg), example_manager [alice, bob] (Some ''uid-alice'')))
   \<and> truthy (Some ''BOB@Example.COM'')
   \<and> matches_username (Some ''BOB@Example.COM'') bob
   \<and> (\<exists>a. a \<in> set (get_accounts (example_manager [alice, bob] (Some ''uid-alice'')))
        \<and> (matches_id None a \<or> matches_username (Some ''BOB@Example.COM'') a)
        \<and> set_active_account (example_manager [alice, bob] (Some ''uid-alice'')) None
            (Some ''BOB@Example.COM'') =
          (Inr (Some (summary_of a True)),
           (example_manager [alice, bob] (Some ''uid-alice''))
             \<lparr>active_account_id := acc_home_account_id a\<rparr>))"
proof -
  let ?M = "example_manager [alice, bob] (Some ''uid-alice'')"
  have g: "get_accounts ?M = [alice, bob]"
    by (simp add: example_manager_def example_cache_def get_accounts_def)
  have n: "\<not> matches_id (Some ''uid-nobody'') alice \<and> \<not> matches_username None alice
      \<and> \<not> matches_id (Some ''uid-nobody'') bob \<and> \<not> matches_username None bob"
    by (simp add: matches_id_def matches_username_def alice_def bob_def)
  have t: "truthy (Some ''BOB@Example.COM'')"
    by (simp add: truthy_def)
  have m: "matches_username (Some ''BOB@Example.COM'') bob"
    by code_simp
  have fails: "\<exists>msg. set_active_account ?M (Some ''uid-nobody'') None =
      (Inl (AuthenticationError msg), ?M)"
    using set_active_account_outcomes [of "Some ''uid-nobody''" None ?M] n
    by (simp add: g)
  have succeeds: "\<exists>a. a \<in> set (get_accounts ?M)
        \<and> (matches_id None a \<or> matches_username (Some ''BOB@Example.COM'') a)
        \<and> set_active_account ?M None (Some ''BOB@Example.COM'') =
          (Inr (Some (summary_of a True)), ?M\<lparr>active_account_id := acc_home_account_id a\<rparr>)"
    using set_active_account_outcomes [of None "Some ''BOB@Example.COM''" ?M] t m
    by (simp add: g)
  show ?thesis using n t m fails succeeds by simp
qed

section \<open>At most one active account\<close>









section \<open>The cache file at start-up\<close>

text \<open>
  What the constructor guards against: with a client identifier given, it starts with an
  empty cache when the file is missing or empty, and also, with a warning logged, when
  \<^verbatim>\<open>read_text\<close> raises an operating-system error.
\<close>

lemma init_guarded_conditions:
  assumes "client_id \<noteq> []"
  shows "(file = Missing \<or> file = Text [] \<longrightarrow>
           (\<exists>m. init deserialize client_id tenant_id sc path file wr = Inr m
              \<and> token_cache m = empty_cache \<and> logger m = []))
       \<and> (\<forall>exc. file = ReadOSError exc \<longrightarrow>
           (\<exists>m. init deserialize client_id tenant_id sc path file wr = Inr m
              \<and> token_cache m = empty_cache
              \<and> logger m = [Warning (''Unable to read token cache: '' @ exc)]))"
  using assms by (auto simp: init_def Let_def)

text \<open>
  What passes the handler: bytes that are not UTF-8 and a text the deserializer rejects
  raise an exception that is no \<^verbatim>\<open>OSError\<close>.
\<close>

lemma init_content_errors:
  "init rejecting ''client-id'' ''common'' [''User.Read''] ''token_cache.bin'' NotUtf8 WriteOk
     = Inl UnicodeDecodeError
   \<and> init rejecting ''client-id'' ''common'' [''User.Read''] ''token_cache.bin''
       (Text ''not json'') WriteOk = Inl (ValueError ''Expecting value'')"
  by (simp add: init_def rejecting_def)

text \<open>
  Claim C3 says that no condition of the cache file makes the construction of the manager
  raise: missing, unreadable or empty, it starts with an empty cache and at most a logged
  warning. The code does not meet it. The handler that logs the warning covers
  \<^verbatim>\<open>read_text\<close> and \<^verbatim>\<open>deserialize\<close> only; \<^verbatim>\<open>exists()\<close> is called before the \<^verbatim>\<open>try\<close>. So
  for a cache path on which \<^verbatim>\<open>exists()\<close> raises an operating-system error the
  constructor raises that error, while the same kind of error out of \<^verbatim>\<open>read_text\<close> is
  caught and leaves a manager with an empty cache and one warning.
\<close>

theorem init_raises_on_unreadable_cache_path:
  "init rejecting ''client-id'' ''common'' [''User.Read''] ''token_cache.bin''
     (ExistsOSError ''[Errno 13] Permission denied'') WriteOk
     = Inl (OSError ''[Errno 13] Permission denied'')
   \<and> init rejecting ''client-id'' ''common'' [''User.Read''] ''token_cache.bin''
       (ReadOSError ''[Errno 13] Permission denied'') WriteOk
     = Inr \<lparr>logger = [Warning ''Unable to read token cache: [Errno 13] Permission denied''],
            scopes = [''User.Read''], cache_path = ''token_cache.bin'',
            pending_device_flows = [], active_account_id = None,
            token_cache = empty_cache,
            disk = ReadOSError ''[Errno 13] Permission denied'', disk_write = WriteOk\<rparr>"
  by (simp add: init_def)

section \<open>The account activated by a completed login\<close>

lemma select_first_match:
  "matching_accounts by_username r accounts = m # ms \<Longrightarrow> m \<noteq> empty_account \<Longrightarrow>
   select_after_login by_username (preferred_username_of r) accounts act =
     (Some m, acc_home_account_id m)"
  by (auto simp: matching_accounts_def select_after_login_def split: option.splits if_splits)

lemma select_last_known:
  "matching_accounts by_username r accounts = [] \<Longrightarrow> accounts \<noteq> [] \<Longrightarrow>
   select_after_login by_username (preferred_username_of r) accounts act =
     (Some (last accounts), acc_home_account_id (last accounts))"
  by (auto simp: matching_accounts_def select_after_login_def split: option.splits if_splits)

lemma select_nothing:
  "matching_accounts by_username r [] = [] \<Longrightarrow>
   select_after_login by_username (preferred_username_of r) [] act = (None, act)"
  by (auto simp: matching_accounts_def select_after_login_def split: option.splits if_splits)

lemma preferred_username_order:
  "preferred_username_of r =
     (if truthy (account_username r) then account_username r
      else if truthy (claim_preferred_username r) then claim_preferred_username r
      else claim_email r)"
  by (simp add: preferred_username_of_def account_username_def claim_preferred_username_def
      claim_email_def Let_def py_or_def empty_claims_def split: option.splits)

lemma complete_success:
  assumes "map_of (pending_device_flows s) fid = Some flow" and "flow \<noteq> empty_flow"
    and "exchange flow t (token_cache s) = Inr (Some r, cache')"
    and "access_token r \<noteq> None"
  shows "\<exists>res s'. complete_device_login by_username exchange fid t s = (Inr res, s')
     \<and> lr_success res
     \<and> lr_account res = set_active (serialize_account
          (snd (select_after_login by_username (preferred_username_of r) (cached_accounts cache')
             (active_account_id s)))
          (fst (select_after_login by_username (preferred_username_of r) (cached_accounts cache')
             (active_account_id s))))
     \<and> active_account_id s' =
          snd (select_after_login by_username (preferred_username_of r) (cached_accounts cache')
             (active_account_id s))"
  using assms
  by (simp add: complete_device_login_def Let_def case_prod_unfold save_cache_frame)
     (simp add: get_accounts_def save_cache_def split: write_outcome.splits)

text \<open>
  Claim C7, as amended. On a successful exchange \<^verbatim>\<open>complete_device_login\<close> looks for the
  user name of the returned account record, else the \<^verbatim>\<open>preferred_username\<close> of the
  id-token claims, else their \<^verbatim>\<open>email\<close>. It activates the first account the store
  lists for that user name; when the store lists none for it, or no user name was found,
  it activates the last account the store lists; when the store is empty it activates
  nothing, returns no summary and leaves the pointer. The summary returned for the
  chosen account has \<open>is_active\<close> true and the pointer holds its identifier.
\<close>

theorem complete_device_login_selection:
  assumes "map_of (pending_device_flows s) fid = Some flow" and "flow \<noteq> empty_flow"
    and "exchange flow t (token_cache s) = Inr (Some r, cache')"
    and "access_token r \<noteq> None"
  shows "preferred_username_of r =
       (if truthy (account_username r) then account_username r
        else if truthy (claim_preferred_username r) then claim_preferred_username r
        else claim_email r)
    \<and> (\<exists>res s'. complete_device_login by_username exchange fid t s = (Inr res, s')
        \<and> (\<forall>m ms. matching_accounts by_username r (cached_accounts cache') = m # ms
               \<and> m \<noteq> empty_account \<longrightarrow>
             lr_account res = Some (summary_of m True)
             \<and> active_account_id s' = acc_home_account_id m)
        \<and> (matching_accounts by_username r (cached_accounts cache') = []
             \<and> cached_accounts cache' \<noteq> [] \<and> last (cached_accounts cache') \<noteq> empty_account \<longrightarrow>
             lr_account res = Some (summary_of (last (cached_accounts cache')) True)
             \<and> active_account_id s' = acc_home_account_id (last (cached_accounts cache')))
        \<and> (matching_accounts by_username r (cached_accounts cache') = []
             \<and> cached_accounts cache' = [] \<longrightarrow>
             lr_account res = None \<and> active_account_id s' = active_account_id s))"
    (is "?order \<and> ?selection")
proof -
  from complete_success [where exchange = exchange and by_username = by_username, OF assms]
  obtain res s' where c: "complete_device_login by_username exchange fid t s = (Inr res, s')"
    and a: "lr_account res = set_active (serialize_account
          (snd (select_after_login by_username (preferred_username_of r) (cached_accounts cache')
             (active_account_id s)))
          (fst (select_after_login by_username (preferred_username_of r) (cached_accounts cache')
             (active_account_id s))))"
    and p: "active_account_id s' =
          snd (select_after_login by_username (preferred_username_of r) (cached_accounts cache')
             (active_account_id s))"
    by blast
  have first: "\<forall>m ms. matching_accounts by_username r (cached_accounts cache') = m # ms
               \<and> m \<noteq> empty_account \<longrightarrow>
             lr_account res = Some (summary_of m True)
             \<and> active_account_id s' = acc_home_account_id m"
    using a p by (auto simp: select_first_match set_active_serialize)
  have lastk: "matching_accounts by_username r (cached_accounts cache') = []
             \<and> cached_accounts cache' \<noteq> [] \<and> last (cached_accounts cache') \<noteq> empty_account \<longrightarrow>
             lr_account res = Some (summary_of (last (cached_accounts cache')) True)
             \<and> active_account_id s' = acc_home_account_id (last (cached_accounts cache'))"
    using a p by (auto simp: select_last_known set_active_serialize)
  have empty_store: "matching_accounts by_username r (cached_accounts cache') = []
             \<and> cached_accounts cache' = [] \<longrightarrow>
             lr_account res = None \<and> active_account_id s' = active_account_id s"
    using a p by (auto simp: select_nothing serialize_account_def set_active_def)
  have ?selection
    using c first lastk empty_store by blast
  with preferred_username_order [of r] show ?thesis by (rule conjI)
qed

theorem complete_device_login_selection_witness:
  "map_of (pending_device_flows
      ((example_manager [bob] None)\<lparr>pending_device_flows := [(''flow-1'', example_flow)]\<rparr>))
      ''flow-1'' = Some example_flow
   \<and> example_flow \<noteq> empty_flow
   \<and> access_token token_for_alice \<noteq> None
   \<and> matching_accounts accounts_with_username token_for_alice
        (cached_accounts (example_cache [alice, bob])) = [alice]
   \<and> alice \<noteq> empty_account
   \<and> preferred_username_of token_for_alice = Some ''alice@example.com''
   \<and> (\<exists>res s'. complete_device_login accounts_with_username
          (\<lambda>f t c. Inr (Some token_for_alice, example_cache [alice, bob])) ''flow-1'' None
          ((example_manager [bob] None)\<lparr>pending_device_flows := [(''flow-1'', example_flow)]\<rparr>)
          = (Inr res, s')
        \<and> lr_account res = Some (summary_of alice True)
        \<and> active_account_id s' = Some ''uid-alice'')"
proof -
  let ?P = "(example_manager [bob] None)\<lparr>pending_device_flows := [(''flow-1'', example_flow)]\<rparr>"
  have h1: "map_of (pending_device_flows ?P) ''flow-1'' = Some example_flow"
    by simp
  have h2: "example_flow \<noteq> empty_flow"
    by (simp add: example_flow_def empty_flow_def)
  have h4: "access_token token_for_alice \<noteq> None"
    by (simp add: token_for_alice_def)
  have m: "matching_accounts accounts_with_username token_for_alice
        (cached_accounts (example_cache [alice, bob])) = [alice]"
    by code_simp
  have ne: "alice \<noteq> empty_account"
    by (simp add: alice_def empty_account_def)
  have u: "account_username token_for_alice = Some ''alice@example.com''"
    by (simp add: account_username_def token_for_alice_def alice_def empty_account_def)
  have i: "acc_home_account_id alice = Some ''uid-alice''"
    by (simp add: alice_def)
  note t = complete_device_login_selection [where s = ?P and fid = "''flow-1''"
      and flow = example_flow and t = None and r = token_for_alice
      and cache' = "example_cache [alice, bob]" and by_username = accounts_with_username
      and exchange = "\<lambda>f t c. Inr (Some token_for_alice, example_cache [alice, bob])",
      OF h1 h2 refl h4]
  have p: "preferred_username_of token_for_alice = Some ''alice@example.com''"
    using t u by (simp add: truthy_def)
  from t obtain res s' where
    c: "complete_device_login accounts_with_username
          (\<lambda>f t c. Inr (Some token_for_alice, example_cache [alice, bob])) ''flow-1'' None ?P
          = (Inr res, s')"
    and f: "\<forall>m ms. matching_accounts accounts_with_username token_for_alice
               (cached_accounts (example_cache [alice, bob])) = m # ms \<and> m \<noteq> empty_account \<longrightarrow>
             lr_account res = Some (summary_of m True)
             \<and> active_account_id s' = acc_home_account_id m"
    by blast
  from f m ne i have "lr_account res = Some (summary_of alice True)
      \<and> active_account_id s' = Some ''uid-alice''"
    by simp
  with c have "\<exists>res s'. complete_device_login accounts_with_username
          (\<lambda>f t c. Inr (Some token_for_alice, example_cache [alice, bob])) ''flow-1'' None ?P
          = (Inr res, s')
        \<and> lr_account res = Some (summary_of alice True)
        \<and> active_account_id s' = Some ''uid-alice''"
    by blast
  with h1 h2 h4 m ne p show ?thesis by simp
qed

text \<open>
  Claim C7 as stated fails where several stored accounts share the user name: the
  exchange returns the account record \<open>alice\<close>, the store lists \<open>alice_old\<close> and then
  \<open>alice\<close> under that user name, and \<^verbatim>\<open>complete_device_login\<close> activates \<open>alice_old\<close>, the
  first of the matching accounts and not the one returned last.
\<close>

theorem complete_device_login_first_match_counterexample:
  "account token_for_alice = Some alice
   \<and> accounts_with_username ''alice@example.com'' [alice_old, alice] = [alice_old, alice]
   \<and> fst (complete_device_login accounts_with_username
        (\<lambda>f t c. Inr (Some token_for_alice, example_cache [alice_old, alice])) ''flow-1'' None
        ((example_manager [alice_old] None)
           \<lparr>pending_device_flows := [(''flow-1'', example_flow)]\<rparr>))
     = Inr \<lparr>lr_success = True, lr_account = Some (summary_of alice_old True),
            lr_expires_in = Some 3600, lr_scope = Some ''User.Read'',
            lr_token_type = Some ''Bearer''\<rparr>
   \<and> active_account_id (snd (complete_device_login accounts_with_username
        (\<lambda>f t c. Inr (Some token_for_alice, example_cache [alice_old, alice])) ''flow-1'' None
        ((example_manager [alice_old] None)
           \<lparr>pending_device_flows := [(''flow-1'', example_flow)]\<rparr>)))
     = Some ''uid-alice-old''"
  by code_simp

end
